theory Spec2Isabelle
  imports Complex_Main "HOL-Library.Sublist" "HOL-Library.Multiset"
begin

section \<open>Cache entries with expiry (utils/cache.py)\<close>







section \<open>Python strings\<close>

text \<open>
  A Python \<^verbatim>\<open>str\<close> is a sequence of code points; the texts handled here (command
  names, the output of package tools, the Portuguese messages of the user interface) lie
  in Latin-1, so one \<^typ>\<open>char\<close> stands for one code point and \<^const>\<open>length\<close> counts
  what \<^verbatim>\<open>len\<close> counts.
\<close>

text \<open>\<^verbatim>\<open>needle in hay\<close>: \<open>needle\<close> occurs in \<open>hay\<close> as a contiguous run.\<close>

fun contains :: "string \<Rightarrow> string \<Rightarrow> bool" where
  "contains [] needle = (needle = [])"
| "contains (c # cs) needle = (prefix needle (c # cs) \<or> contains cs needle)"

text \<open>
  \<^verbatim>\<open>str.lower()\<close>, character by character: the letters \<^verbatim>\<open>A\<close> to \<^verbatim>\<open>Z\<close> and the
  accented capitals of Latin-1 (U+00C0 to U+00DE, but for the multiplication sign
  U+00D7) move up by 32; every other character of Latin-1 is kept.
\<close>

definition lower_char :: "char \<Rightarrow> char" where
  "lower_char c =
     (if (65 \<le> (of_char c :: nat) \<and> (of_char c :: nat) \<le> 90)
         \<or> (192 \<le> (of_char c :: nat) \<and> (of_char c :: nat) \<le> 222 \<and> (of_char c :: nat) \<noteq> 215)
      then char_of ((of_char c :: nat) + 32) else c)"

definition str_lower :: "string \<Rightarrow> string" where
  "str_lower s = map lower_char s"

text \<open>\<^verbatim>\<open>str.strip()\<close> removes the white space of both ends.\<close>

definition is_space :: "char \<Rightarrow> bool" where
  "is_space c =
     (let n = (of_char c :: nat)
      in (9 \<le> n \<and> n \<le> 13) \<or> (28 \<le> n \<and> n \<le> 32) \<or> n = 133 \<or> n = 160)"

definition strip :: "string \<Rightarrow> string" where
  "strip s = rev (dropWhile is_space (rev (dropWhile is_space s)))"

text \<open>\<^verbatim>\<open>s[-n:]\<close> for a positive \<open>n\<close>: the last \<open>n\<close> characters, or all of a shorter \<open>s\<close>.\<close>

definition take_last :: "nat \<Rightarrow> string \<Rightarrow> string" where
  "take_last n s = drop (length s - n) s"

text \<open>The accented words of the messages.\<close>

definition instalacao :: string where
  "instalacao = ''instala'' @ [CHR 0xE7, CHR 0xE3] @ ''o''"

definition Instalacao :: string where
  "Instalacao = ''Instala'' @ [CHR 0xE7, CHR 0xE3] @ ''o''"

definition concluida :: string where
  "concluida = ''conclu'' @ [CHR 0xED] @ ''da''"




section \<open>External commands\<close>

text \<open>
  \<^verbatim>\<open>subprocess.run(cmd, capture_output=True, ...)\<close> either raises (the program is
  missing, the time limit passes) or returns a \<^verbatim>\<open>CompletedProcess\<close>. The host is the
  function from the command line to that outcome; \<open>Inl\<close> carries the text of the
  exception.
\<close>

record CompletedProcess =
  returncode :: int
  stdout :: string
  stderr :: string

type_synonym host = "string list \<Rightarrow> string + CompletedProcess"

section \<open>Installation with progress (managers/installation_manager.py)\<close>

datatype InstallStatus = PREPARING | DOWNLOADING | INSTALLING | COMPLETED | FAILED | CANCELLED

record InstallProgress =
  status :: InstallStatus
  message :: string
  percentage :: int
  details :: string

text \<open>The manager's only field is \<^verbatim>\<open>_cancel_requested\<close>.\<close>

record InstallationManager =
  cancel_requested :: bool

text \<open>\<^verbatim>\<open>__init__\<close> and \<^verbatim>\<open>cancel\<close>.\<close>

definition init_manager :: InstallationManager where
  "init_manager = \<lparr>cancel_requested = False\<rparr>"

definition cancel :: "InstallationManager \<Rightarrow> InstallationManager" where
  "cancel m = m\<lparr>cancel_requested := True\<rparr>"

text \<open>
  The first statement of \<^verbatim>\<open>install_package\<close>, run by the caller before the worker
  thread starts: \<^verbatim>\<open>self._cancel_requested = False\<close>.
\<close>

definition install_package_begin :: "InstallationManager \<Rightarrow> InstallationManager" where
  "install_package_begin m = m\<lparr>cancel_requested := False\<rparr>"

text \<open>
  A child started with \<^verbatim>\<open>Popen\<close> is read line by line. Between two lines other
  threads may call \<^verbatim>\<open>cancel\<close> or \<^verbatim>\<open>install_package\<close> on the same manager. A run of
  the child, as the worker thread meets it, is the list of these events in order of
  time, up to the end of the child's output, and the exit code the child ends with.
  \<open>ReadError\<close> is a read of the pipe that raises.
\<close>

datatype event = Line string | CancelCall | InstallCall | ReadError string

record child =
  events :: "event list"
  exit_code :: int

type_synonym popen = "string list \<Rightarrow> string + child"

text \<open>
  What one call of an \<^verbatim>\<open>_install_*\<close> method has done so far: the manager it shares,
  its list \<^verbatim>\<open>output_lines\<close>, the progress records it has passed to
  \<^verbatim>\<open>progress_callback\<close>, and whether it has called \<^verbatim>\<open>process.terminate()\<close>.
\<close>

record task =
  manager :: InstallationManager
  output_lines :: "string list"
  reported :: "InstallProgress list"
  terminated :: bool

definition new_task :: "InstallationManager \<Rightarrow> task" where
  "new_task m = \<lparr>manager = m, output_lines = [], reported = [], terminated = False\<rparr>"

text \<open>
  \<^verbatim>\<open>if progress_callback: progress_callback(p)\<close>; \<open>cb\<close> says whether a callback was
  given. The callback only records.
\<close>

definition emit :: "bool \<Rightarrow> InstallProgress \<Rightarrow> task \<Rightarrow> task" where
  "emit cb p t = (if cb then t\<lparr>reported := reported t @ [p]\<rparr> else t)"

datatype loop_exit = Exhausted | CancelSeen | Raised string

text \<open>
  The loop \<^verbatim>\<open>for line in process.stdout\<close>, the same in the four methods but for the
  progress \<open>classify\<close> reads from a line. The flag is looked at once per line read.
\<close>

fun read_lines ::
  "(string \<Rightarrow> InstallProgress option) \<Rightarrow> bool \<Rightarrow> event list \<Rightarrow> task \<Rightarrow> loop_exit \<times> task" where
  "read_lines classify cb [] t = (Exhausted, t)"
| "read_lines classify cb (CancelCall # es) t =
     read_lines classify cb es (t\<lparr>manager := cancel (manager t)\<rparr>)"
| "read_lines classify cb (InstallCall # es) t =
     read_lines classify cb es (t\<lparr>manager := install_package_begin (manager t)\<rparr>)"
| "read_lines classify cb (ReadError e # es) t = (Raised e, t)"
| "read_lines classify cb (Line line # es) t =
     (if cancel_requested (manager t)
      then (CancelSeen, t\<lparr>terminated := True\<rparr>)
      else read_lines classify cb es
             (let t' = t\<lparr>output_lines := output_lines t @ [line]\<rparr>
              in case classify line of None \<Rightarrow> t' | Some p \<Rightarrow> emit cb p t'))"

text \<open>
  After the loop: \<^verbatim>\<open>process.wait()\<close>, then the exit code decides. The text returned on
  failure is \<^verbatim>\<open>output[-1000:]\<close>, the details reported are \<^verbatim>\<open>output[-500:]\<close>.
\<close>

definition finish :: "int \<Rightarrow> bool \<Rightarrow> task \<Rightarrow> (bool \<times> string) \<times> task" where
  "finish rc cb t =
     (let output = concat (output_lines t)
      in if rc = 0
         then ((True, Instalacao @ '' '' @ concluida @ '' com sucesso''),
               emit cb \<lparr>status = COMPLETED, message = Instalacao @ '' '' @ concluida @ ''!'',
                        percentage = 100, details = []\<rparr> t)
         else ((False, take_last 1000 output),
               emit cb \<lparr>status = FAILED, message = ''Falha na '' @ instalacao,
                        percentage = 0, details = take_last 500 output\<rparr> t))"

text \<open>The handler \<^verbatim>\<open>except Exception as e\<close> of the four methods.\<close>

definition failed_with :: "string \<Rightarrow> bool \<Rightarrow> task \<Rightarrow> (bool \<times> string) \<times> task" where
  "failed_with e cb t =
     ((False, e),
      emit cb \<lparr>status = FAILED, message = ''Erro: '' @ e, percentage = 0, details = []\<rparr> t)"

text \<open>From \<^verbatim>\<open>Popen\<close> to the \<^verbatim>\<open>return\<close>, inside the \<^verbatim>\<open>try\<close>.\<close>

definition run_child ::
  "(string \<Rightarrow> InstallProgress option) \<Rightarrow> bool \<Rightarrow> string + child \<Rightarrow> task \<Rightarrow> (bool \<times> string) \<times> task" where
  "run_child classify cb spawned t =
     (case spawned of
        Inl e \<Rightarrow> failed_with e cb t
      | Inr p \<Rightarrow>
          (case read_lines classify cb (events p) (t\<lparr>output_lines := []\<rparr>) of
             (CancelSeen, t') \<Rightarrow> ((False, ''Installation cancelled''), t')
           | (Raised e, t') \<Rightarrow> failed_with e cb t'
           | (Exhausted, t') \<Rightarrow> finish (exit_code p) cb t'))"

definition preparing :: "string \<Rightarrow> InstallProgress" where
  "preparing name =
     \<lparr>status = PREPARING, message = ''Preparando '' @ instalacao @ '' de '' @ name @ ''...'',
      percentage = 0, details = []\<rparr>"





text \<open>
  The search for a tool written in \<^verbatim>\<open>_install_aur\<close>, \<^verbatim>\<open>_install_native\<close> and
  \<^verbatim>\<open>uninstall_package\<close>: \<^verbatim>\<open>which\<close> is run for each name in turn, the name is taken as
  soon as the call returns, and only a call that raises moves on to the next name. The
  exit code of \<^verbatim>\<open>which\<close> is not read.
\<close>

fun find_helper :: "host \<Rightarrow> string list \<Rightarrow> string option" where
  "find_helper run [] = None"
| "find_helper run (h # hs) =
     (case run [''which'', h] of
        Inl e \<Rightarrow> find_helper run hs
      | Inr result \<Rightarrow> Some h)"

text \<open>\<^verbatim>\<open>_install_aur\<close>.\<close>

definition aur_progress :: "string \<Rightarrow> InstallProgress option" where
  "aur_progress line =
     (let line_lower = str_lower line
      in if contains line_lower ''cloning'' \<or> contains line_lower ''fetching''
         then Some \<lparr>status = DOWNLOADING, message = ''Baixando do AUR...'',
                    percentage = 20, details = take 100 (strip line)\<rparr>
         else if contains line_lower ''building'' \<or> contains line_lower ''making''
         then Some \<lparr>status = INSTALLING, message = ''Compilando pacote...'',
                    percentage = 50, details = take 100 (strip line)\<rparr>
         else if contains line_lower ''installing'' \<or> contains line_lower ''upgrading''
         then Some \<lparr>status = INSTALLING, message = ''Instalando pacote...'',
                    percentage = 80, details = take 100 (strip line)\<rparr>
         else None)"

definition aur_command :: "string \<Rightarrow> string \<Rightarrow> string list" where
  "aur_command helper pkg_name =
     (if helper = ''pamac'' then [''pamac'', ''build'', ''--no-confirm'', pkg_name]
      else if helper = ''paru'' then [''paru'', ''-S'', ''--noconfirm'', ''--needed'', pkg_name]
      else [''yay'', ''-S'', ''--noconfirm'', ''--needed'', pkg_name])"

definition install_aur :: "host \<Rightarrow> popen \<Rightarrow> bool \<Rightarrow> string \<Rightarrow> task \<Rightarrow> (bool \<times> string) \<times> task" where
  "install_aur run popen cb pkg_name t =
     (let t1 = emit cb (preparing pkg_name) t
      in case find_helper run [''paru'', ''yay'', ''pamac''] of
           None \<Rightarrow>
             ((False, ''No AUR helper found''),
              emit cb \<lparr>status = FAILED,
                       message = ''Nenhum AUR helper encontrado (paru, yay, pamac)'',
                       percentage = 0, details = []\<rparr> t1)
         | Some helper \<Rightarrow>
             run_child aur_progress cb (popen (aur_command helper pkg_name))
               (emit cb \<lparr>status = DOWNLOADING, message = ''Buscando pacote AUR...'',
                        percentage = 10, details = []\<rparr> t1))"








section \<open>Probing the host\<close>

text \<open>
  \<^verbatim>\<open>UnifiedAppFetcher._detect_sources\<close> (data/app_fetcher.py). A source checked by a
  version call is available when the call returns with exit code \<open>0\<close>; a call that
  raises leaves the entry \<^verbatim>\<open>False\<close>.
\<close>

definition version_ok :: "host \<Rightarrow> string list \<Rightarrow> bool" where
  "version_ok run cmd =
     (case run cmd of Inl e \<Rightarrow> False | Inr result \<Rightarrow> returncode result = 0)"

text \<open>
  The loops over the helpers and over the native managers: the entry becomes
  \<^verbatim>\<open>True\<close> at the first name for which \<^verbatim>\<open>which\<close> returns exit code \<open>0\<close>.
\<close>

fun which_any :: "host \<Rightarrow> string list \<Rightarrow> bool" where
  "which_any run [] = False"
| "which_any run (h # hs) =
     (case run [''which'', h] of
        Inl e \<Rightarrow> which_any run hs
      | Inr result \<Rightarrow> if returncode result = 0 then True else which_any run hs)"

definition detect_sources :: "host \<Rightarrow> (string \<times> bool) list" where
  "detect_sources run =
     [(''flatpak'', version_ok run [''flatpak'', ''--version'']),
      (''snap'', version_ok run [''snap'', ''--version'']),
      (''aur'', which_any run [''paru'', ''yay'', ''pamac'']),
      (''native'', which_any run [''pamac'', ''pacman'', ''apt'', ''dnf'']),
      (''distrobox'', version_ok run [''distrobox'', ''version''])]"

text \<open>\<^verbatim>\<open>get_available_sources\<close>: the keys whose value is true, in the order of the dictionary.\<close>

definition get_available_sources :: "(string \<times> bool) list \<Rightarrow> string list" where
  "get_available_sources sources = map fst (filter snd sources)"

text \<open>
  \<^verbatim>\<open>AURManager._detect_helper\<close> (managers/aur_manager.py) and
  \<^verbatim>\<open>NativeManager._detect_package_manager\<close> (managers/native_manager.py) return the
  first name for which \<^verbatim>\<open>which\<close> returns exit code \<open>0\<close>.
\<close>

fun first_resolving :: "host \<Rightarrow> string list \<Rightarrow> string option" where
  "first_resolving run [] = None"
| "first_resolving run (h # hs) =
     (case run [''which'', h] of
        Inl e \<Rightarrow> first_resolving run hs
      | Inr result \<Rightarrow> if returncode result = 0 then Some h else first_resolving run hs)"

definition HELPERS :: "string list" where
  "HELPERS = [''paru'', ''yay'', ''pamac'', ''pacman'']"

definition detect_helper :: "host \<Rightarrow> string option" where
  "detect_helper run = first_resolving run HELPERS"

definition detect_package_manager :: "host \<Rightarrow> string" where
  "detect_package_manager run =
     (case first_resolving run
             [''pamac'', ''pacman'', ''apt'', ''dnf'', ''zypper'', ''apk'', ''xbps-install''] of
        None \<Rightarrow> ''unknown''
      | Some pm \<Rightarrow> pm)"

text \<open>
  \<^verbatim>\<open>PackageManager._command_exists\<close> (utils/package_manager (1).py): true whenever the
  call of \<^verbatim>\<open>which\<close> returns.
\<close>

definition command_exists :: "host \<Rightarrow> string \<Rightarrow> bool" where
  "command_exists run command =
     (case run [''which'', command] of Inl e \<Rightarrow> False | Inr result \<Rightarrow> True)"

section \<open>Detecting the distribution (models.py, utils/package_manager (1).py)\<close>

datatype DistroType =
  ARCH | MANJARO | BIGLINUX | ENDEAVOUROS | GARUDA | FEDORA | UBUNTU | DEBIAN | OPENSUSE
  | GENTOO | VOID | ALPINE | UNKNOWN

record DistroInfo =
  distro_name :: string
  distro_type :: DistroType
  distro_version :: string
  codename :: string
  base :: string
  package_manager :: string
  supports_aur :: bool
  supports_flatpak :: bool
  supports_snap :: bool

text \<open>\<^verbatim>\<open>s.split(sep)\<close> for a separator of one character.\<close>

fun split_on :: "char \<Rightarrow> string \<Rightarrow> string list" where
  "split_on sep [] = [[]]"
| "split_on sep (c # cs) =
     (if c = sep then [] # split_on sep cs
      else (case split_on sep cs of
              [] \<Rightarrow> [[c]]
            | part # parts \<Rightarrow> (c # part) # parts))"

text \<open>\<^verbatim>\<open>s.strip(chars)\<close>.\<close>

definition strip_chars :: "string \<Rightarrow> string \<Rightarrow> string" where
  "strip_chars chars s =
     rev (dropWhile (\<lambda>c. c \<in> set chars) (rev (dropWhile (\<lambda>c. c \<in> set chars) s)))"

text \<open>
  The dictionary \<^verbatim>\<open>data\<close> of \<^verbatim>\<open>_parse_os_release\<close>: every line with an \<^verbatim>\<open>=\<close> is cut
  at the first one, and a later line replaces an earlier one with the same key.
\<close>

definition os_release_line :: "(string \<rightharpoonup> string) \<Rightarrow> string \<Rightarrow> (string \<rightharpoonup> string)" where
  "os_release_line d line =
     (if CHR ''='' \<in> set line
      then d(takeWhile (\<lambda>c. c \<noteq> CHR ''='') line \<mapsto>
             strip_chars [CHR 0x22, CHR 0x27] (tl (dropWhile (\<lambda>c. c \<noteq> CHR ''='') line)))
      else d)"

definition os_release_data :: "string \<Rightarrow> (string \<rightharpoonup> string)" where
  "os_release_data content = foldl os_release_line Map.empty (split_on (CHR 0x0A) content)"

text \<open>\<^verbatim>\<open>d.get(k, default)\<close>.\<close>

definition get_or :: "(string \<rightharpoonup> string) \<Rightarrow> string \<Rightarrow> string \<Rightarrow> string" where
  "get_or d k dflt = (case d k of None \<Rightarrow> dflt | Some v \<Rightarrow> v)"

text \<open>
  The chain of tests on the lower-cased \<^verbatim>\<open>NAME\<close>, in the order of the source; the
  result is the type, the base, the package manager and the support of the AUR.
\<close>

definition classify_name :: "string \<Rightarrow> DistroType \<times> string \<times> string \<times> bool" where
  "classify_name name =
     (if contains name ''biglinux'' then (BIGLINUX, ''arch'', ''pacman'', True)
      else if contains name ''manjaro'' then (MANJARO, ''arch'', ''pacman'', True)
      else if contains name ''endeavouros'' then (ENDEAVOUROS, ''arch'', ''pacman'', True)
      else if contains name ''garuda'' then (GARUDA, ''arch'', ''pacman'', True)
      else if contains name ''arch'' then (ARCH, ''arch'', ''pacman'', True)
      else if contains name ''fedora'' then (FEDORA, ''rhel'', ''dnf'', False)
      else if contains name ''ubuntu'' then (UBUNTU, ''debian'', ''apt'', False)
      else if contains name ''debian'' then (DEBIAN, ''debian'', ''apt'', False)
      else if contains name ''opensuse'' \<or> contains name ''suse''
      then (OPENSUSE, ''suse'', ''zypper'', False)
      else if contains name ''gentoo'' then (GENTOO, ''gentoo'', ''emerge'', False)
      else if contains name ''void'' then (VOID, ''void'', ''xbps'', False)
      else if contains name ''alpine'' then (ALPINE, ''alpine'', ''apk'', False)
      else (UNKNOWN, [], [], False))"

definition parse_os_release :: "string \<Rightarrow> DistroInfo" where
  "parse_os_release content =
     (let d = os_release_data content;
          name = str_lower (get_or d ''NAME'' ''Unknown'')
      in case classify_name name of
           (dtype, b, pm, aur) \<Rightarrow>
             \<lparr>distro_name = get_or d ''PRETTY_NAME'' (get_or d ''NAME'' ''Unknown''),
              distro_type = dtype,
              distro_version = get_or d ''VERSION_ID'' [],
              codename = get_or d ''VERSION_CODENAME'' [],
              base = b, package_manager = pm, supports_aur = aur,
              supports_flatpak = True, supports_snap = True\<rparr>)"

text \<open>
  \<^verbatim>\<open>_detect_via_package_manager\<close>: the first entry of the table for which
  \<^verbatim>\<open>_command_exists\<close> is true gives the profile; \<^verbatim>\<open>None\<close> when there is none.
\<close>

definition package_managers :: "(string \<times> string \<times> string \<times> bool) list" where
  "package_managers =
     [(''pacman'', ''arch'', ''pacman'', True),
      (''apt'', ''debian'', ''apt'', False),
      (''dnf'', ''rhel'', ''dnf'', False),
      (''zypper'', ''suse'', ''zypper'', False)]"

fun detect_from :: "host \<Rightarrow> (string \<times> string \<times> string \<times> bool) list \<Rightarrow> DistroInfo option" where
  "detect_from run [] = None"
| "detect_from run ((cmd, b, pm, aur) # rest) =
     (if command_exists run cmd
      then Some \<lparr>distro_name = ''Auto-detected'', distro_type = UNKNOWN, distro_version = [],
                 codename = [], base = b, package_manager = pm, supports_aur = aur,
                 supports_flatpak = True, supports_snap = True\<rparr>
      else detect_from run rest)"

definition detect_via_package_manager :: "host \<Rightarrow> DistroInfo option" where
  "detect_via_package_manager run = detect_from run package_managers"

text \<open>The profile built when nothing was found.\<close>

definition unknown_distro :: DistroInfo where
  "unknown_distro =
     \<lparr>distro_name = ''Unknown'', distro_type = UNKNOWN, distro_version = [], codename = [],
      base = [], package_manager = ''auto'', supports_aur = False,
      supports_flatpak = True, supports_snap = True\<rparr>"

text \<open>
  The file \<^verbatim>\<open>/etc/os-release\<close>: absent, readable with a content, or present and not
  readable, in which case \<^verbatim>\<open>open\<close> raises and nothing catches it.
\<close>

datatype os_release = Absent | Readable string | Unreadable string

definition detect_distribution :: "os_release \<Rightarrow> host \<Rightarrow> string + DistroInfo" where
  "detect_distribution file run =
     (case file of
        Unreadable e \<Rightarrow> Inl e
      | Absent \<Rightarrow>
          Inr (case detect_via_package_manager run of None \<Rightarrow> unknown_distro | Some d \<Rightarrow> d)
      | Readable content \<Rightarrow>
          (let distro_info = parse_os_release content
           in if distro_type distro_info = UNKNOWN
              then Inr (case detect_via_package_manager run of
                          None \<Rightarrow> unknown_distro
                        | Some d \<Rightarrow> d)
              else Inr distro_info))"

section \<open>Application records (models.py)\<close>

text \<open>
  The dataclass \<^verbatim>\<open>AppInfo\<close>. The fields \<^verbatim>\<open>id\<close> and \<^verbatim>\<open>size\<close> are \<open>app_id\<close> and
  \<open>app_size\<close> here.
\<close>

record AppInfo =
  app_id :: string
  name :: string
  summary :: string
  description :: string
  icon_name :: "string option"
  version :: "string option"
  developer :: "string option"
  categories :: "string list"
  source :: string
  installed :: bool
  app_size :: "string option"
  rating :: "real option"
  downloads :: "int option"
  license :: "string option"
  homepage :: "string option"
  screenshots :: "string list"
  featured :: bool
  update_available :: bool

text \<open>The identity of a record in the catalog.\<close>

definition fingerprint :: "AppInfo \<Rightarrow> string \<times> string" where
  "fingerprint app = (app_id app, source app)"

section \<open>The catalog over the managers (utils/package_manager (1).py)\<close>

text \<open>
  A manager of one source, as the catalog meets it: what its methods return or raise.
  \<open>Inl\<close> carries the text of an exception.
\<close>

record backend =
  get_apps :: "string + AppInfo list"
  install :: "string \<Rightarrow> string + bool \<times> string"
  uninstall :: "string \<Rightarrow> string + bool \<times> string"
  update :: "string \<Rightarrow> string + bool \<times> string"

text \<open>
  \<^verbatim>\<open>PackageManager\<close> holds the dictionary \<^verbatim>\<open>_managers\<close>, kept in insertion order, the
  list \<^verbatim>\<open>_cache\<close> and the flag \<^verbatim>\<open>_cache_valid\<close>.
\<close>

record PackageManager =
  distro_info :: DistroInfo
  managers :: "(string \<times> backend) list"
  pm_cache :: "AppInfo list"
  cache_valid :: bool

text \<open>
  The body of both merging loops: \<^verbatim>\<open>self._cache.extend(apps)\<close>, or nothing when the
  manager raised.
\<close>

definition extend_cache :: "AppInfo list \<Rightarrow> backend \<Rightarrow> AppInfo list" where
  "extend_cache c b = (case get_apps b of Inl e \<Rightarrow> c | Inr apps \<Rightarrow> c @ apps)"

text \<open>
  \<^verbatim>\<open>refresh_cache\<close> submits one \<^verbatim>\<open>get_apps\<close> per manager to a pool of threads and
  extends the cache in the order in which \<^verbatim>\<open>as_completed\<close> yields the futures.
  \<open>completion\<close> is that order, as the list of the sources of the futures.
\<close>

definition extend_from :: "(string \<times> backend) list \<Rightarrow> AppInfo list \<Rightarrow> string \<Rightarrow> AppInfo list" where
  "extend_from ms c src = (case map_of ms src of None \<Rightarrow> c | Some b \<Rightarrow> extend_cache c b)"

definition utils_refresh_cache :: "string list \<Rightarrow> PackageManager \<Rightarrow> PackageManager" where
  "utils_refresh_cache completion pm =
     pm\<lparr>pm_cache := foldl (extend_from (managers pm)) [] completion, cache_valid := True\<rparr>"

text \<open>\<^verbatim>\<open>get_all_apps\<close> walks the managers in the order of the dictionary.\<close>

definition utils_get_all_apps :: "PackageManager \<Rightarrow> AppInfo list \<times> PackageManager" where
  "utils_get_all_apps pm =
     (if \<not> cache_valid pm
      then (let c = foldl extend_cache [] (map snd (managers pm))
            in (c, pm\<lparr>pm_cache := c, cache_valid := True\<rparr>))
      else (pm_cache pm, pm))"




text \<open>
  \<^verbatim>\<open>install_app\<close>, \<^verbatim>\<open>uninstall_app\<close> and \<^verbatim>\<open>update_app\<close>. The result is the record after
  the call, the manager after the call, and the pair given to the callback.
\<close>

definition utils_install_app ::
  "PackageManager \<Rightarrow> AppInfo \<Rightarrow> AppInfo \<times> PackageManager \<times> (bool \<times> string)" where
  "utils_install_app pm app =
     (case map_of (managers pm) (source app) of
        None \<Rightarrow> (app, pm, (False, ''Source '' @ source app @ '' not available''))
      | Some mgr \<Rightarrow>
          (case install mgr (app_id app) of
             Inl e \<Rightarrow> (app, pm, (False, e))
           | Inr (success, msg) \<Rightarrow>
               if success
               then (app\<lparr>installed := True\<rparr>, pm\<lparr>cache_valid := False\<rparr>, (success, msg))
               else (app, pm, (success, msg))))"

definition utils_uninstall_app ::
  "PackageManager \<Rightarrow> AppInfo \<Rightarrow> AppInfo \<times> PackageManager \<times> (bool \<times> string)" where
  "utils_uninstall_app pm app =
     (case map_of (managers pm) (source app) of
        None \<Rightarrow> (app, pm, (False, ''Source '' @ source app @ '' not available''))
      | Some mgr \<Rightarrow>
          (case uninstall mgr (app_id app) of
             Inl e \<Rightarrow> (app, pm, (False, e))
           | Inr (success, msg) \<Rightarrow>
               if success
               then (app\<lparr>installed := False\<rparr>, pm\<lparr>cache_valid := False\<rparr>, (success, msg))
               else (app, pm, (success, msg))))"

definition utils_update_app ::
  "PackageManager \<Rightarrow> AppInfo \<Rightarrow> AppInfo \<times> PackageManager \<times> (bool \<times> string)" where
  "utils_update_app pm app =
     (case map_of (managers pm) (source app) of
        None \<Rightarrow> (app, pm, (False, ''Source '' @ source app @ '' not available''))
      | Some mgr \<Rightarrow>
          (case update mgr (app_id app) of
             Inl e \<Rightarrow> (app, pm, (False, e))
           | Inr (success, msg) \<Rightarrow>
               if success
               then (app\<lparr>update_available := False\<rparr>, pm, (success, msg))
               else (app, pm, (success, msg))))"

section \<open>The catalog over the curated table (data/popular_apps.py, data/app_fetcher.py)\<close>

text \<open>
  An entry of \<^verbatim>\<open>POPULAR_APPS\<close>. Every entry of the table has a name and a summary; the
  other keys are read with \<^verbatim>\<open>get\<close>.
\<close>

record metadata =
  meta_name :: string
  meta_summary :: string
  meta_developer :: "string option"
  meta_categories :: "string list option"
  meta_downloads :: "int option"
  meta_rating :: "real option"

text \<open>
  The two tables are arguments: \<open>popular\<close> is \<^verbatim>\<open>POPULAR_APPS\<close> in the order of its keys,
  \<open>package_ids\<close> is \<^verbatim>\<open>PACKAGE_IDS\<close>, a missing source and the value \<^verbatim>\<open>None\<close> being the
  same to \<^verbatim>\<open>get\<close>.
\<close>

type_synonym popular_apps = "(string \<times> metadata) list"
type_synonym package_ids = "string \<rightharpoonup> (string \<rightharpoonup> string)"

definition get_popular_app_keys :: "popular_apps \<Rightarrow> string list" where
  "get_popular_app_keys popular = map fst popular"

definition get_app_metadata :: "popular_apps \<Rightarrow> string \<Rightarrow> metadata option" where
  "get_app_metadata popular k = map_of popular k"

definition get_package_id :: "package_ids \<Rightarrow> string \<Rightarrow> string \<Rightarrow> string option" where
  "get_package_id ids k src = (case ids k of None \<Rightarrow> None | Some per_source \<Rightarrow> per_source src)"

text \<open>
  \<^verbatim>\<open>search_popular_apps\<close>: the lower-cased query is looked for in the key, in the
  lower-cased name and in the lower-cased summary.
\<close>

definition search_popular_apps :: "popular_apps \<Rightarrow> string \<Rightarrow> (string \<times> metadata) list" where
  "search_popular_apps popular query =
     (let query_lower = str_lower query
      in filter (\<lambda>(k, info). contains k query_lower
                   \<or> contains (str_lower (meta_name info)) query_lower
                   \<or> contains (str_lower (meta_summary info)) query_lower) popular)"

text \<open>\<^verbatim>\<open>_is_installed\<close>, on the dictionary \<^verbatim>\<open>_installed_cache\<close>.\<close>

definition is_installed :: "(string \<rightharpoonup> string list) \<Rightarrow> string \<Rightarrow> string \<Rightarrow> bool" where
  "is_installed installed_cache pkg_id src =
     (case installed_cache src of None \<Rightarrow> False | Some ids \<Rightarrow> pkg_id \<in> set ids)"

text \<open>
  The body of the inner loop of \<^verbatim>\<open>get_all_apps\<close>, for one key and one source. The
  state is the list \<^verbatim>\<open>apps\<close> and the set \<^verbatim>\<open>seen_ids\<close>. \<open>icon\<close> is
  \<^verbatim>\<open>icon_manager.get_icon_name\<close>.
\<close>

definition add_source ::
  "package_ids \<Rightarrow> (string \<Rightarrow> string \<Rightarrow> string \<Rightarrow> string option) \<Rightarrow> (string \<rightharpoonup> string list) \<Rightarrow>
   string \<Rightarrow> metadata \<Rightarrow> AppInfo list \<times> string set \<Rightarrow> string \<Rightarrow> AppInfo list \<times> string set" where
  "add_source ids icon installed_cache app_key info st src =
     (case get_package_id ids app_key src of
        None \<Rightarrow> st
      | Some pkg_id \<Rightarrow>
          (let cache_key = pkg_id @ '':'' @ src
           in if cache_key \<in> snd st then st
              else (fst st @
                     [\<lparr>app_id = pkg_id, name = meta_name info, summary = meta_summary info,
                       description = [], icon_name = icon pkg_id (meta_name info) src,
                       version = None,
                       developer = Some (case meta_developer info of None \<Rightarrow> [] | Some d \<Rightarrow> d),
                       categories = (case meta_categories info of None \<Rightarrow> [] | Some cs \<Rightarrow> cs),
                       source = src,
                       installed = is_installed installed_cache pkg_id src,
                       app_size = None,
                       rating = Some (case meta_rating info of None \<Rightarrow> 0 | Some r \<Rightarrow> r),
                       downloads = Some (case meta_downloads info of None \<Rightarrow> 0 | Some n \<Rightarrow> n),
                       license = None, homepage = None, screenshots = [], featured = False,
                       update_available = False\<rparr>],
                    insert cache_key (snd st))))"

text \<open>The body of the outer loop, for one key.\<close>

definition add_key ::
  "popular_apps \<Rightarrow> package_ids \<Rightarrow> (string \<Rightarrow> string \<Rightarrow> string \<Rightarrow> string option) \<Rightarrow>
   (string \<rightharpoonup> string list) \<Rightarrow> string list \<Rightarrow> AppInfo list \<times> string set \<Rightarrow> string \<Rightarrow>
   AppInfo list \<times> string set" where
  "add_key popular ids icon installed_cache sources st app_key =
     (case get_app_metadata popular app_key of
        None \<Rightarrow> st
      | Some info \<Rightarrow> foldl (add_source ids icon installed_cache app_key info) st sources)"

text \<open>
  \<^verbatim>\<open>UnifiedAppFetcher.get_all_apps\<close>. \<open>available\<close> is the dictionary
  \<^verbatim>\<open>_available_sources\<close>; \<open>installed_cache\<close> is what \<^verbatim>\<open>_load_installed_cache\<close> has
  just stored, whatever the package tools have printed.
\<close>

definition fetcher_get_all_apps ::
  "popular_apps \<Rightarrow> package_ids \<Rightarrow> (string \<Rightarrow> string \<Rightarrow> string \<Rightarrow> string option) \<Rightarrow>
   (string \<rightharpoonup> string list) \<Rightarrow> (string \<times> bool) list \<Rightarrow> AppInfo list" where
  "fetcher_get_all_apps popular ids icon installed_cache available =
     fst (foldl (add_key popular ids icon installed_cache (get_available_sources available))
            ([], {}) (get_popular_app_keys popular))"

section \<open>Installing through the command line (managers/package_manager.py)\<close>

text \<open>\<^verbatim>\<open>return result.returncode == 0, result.stdout + result.stderr\<close>.\<close>

definition outcome :: "CompletedProcess \<Rightarrow> bool \<times> string" where
  "outcome result = (returncode result = 0, stdout result @ stderr result)"

text \<open>
  The loops over the helpers and over the native managers: both calls of a turn are
  inside one \<^verbatim>\<open>try\<close>, and an exception of either moves on to the next tool.
\<close>

fun try_each :: "host \<Rightarrow> (string \<Rightarrow> string list) \<Rightarrow> string list \<Rightarrow> (bool \<times> string) option" where
  "try_each run command [] = None"
| "try_each run command (tool # tools) =
     (case run [''which'', tool] of
        Inl e \<Rightarrow> try_each run command tools
      | Inr found \<Rightarrow>
          (case run (command tool) of
             Inl e \<Rightarrow> try_each run command tools
           | Inr result \<Rightarrow> Some (outcome result)))"

definition aur_build_command :: "string \<Rightarrow> string \<Rightarrow> string list" where
  "aur_build_command pkg_id helper =
     (if helper = ''pamac'' then [''pamac'', ''build'', ''--no-confirm'', pkg_id]
      else [helper, ''-S'', ''--noconfirm'', pkg_id])"

definition native_install_command :: "string \<Rightarrow> string \<Rightarrow> string list" where
  "native_install_command pkg_id pm =
     (if pm = ''pamac'' then [''pamac'', ''install'', ''--no-confirm'', pkg_id]
      else if pm = ''pacman'' then [''sudo'', ''pacman'', ''-S'', ''--noconfirm'', pkg_id]
      else if pm = ''apt'' then [''sudo'', ''apt'', ''install'', ''-y'', pkg_id]
      else [''sudo'', ''dnf'', ''install'', ''-y'', pkg_id])"

definition native_remove_command :: "string \<Rightarrow> string \<Rightarrow> string list" where
  "native_remove_command pkg_id pm =
     (if pm = ''pamac'' then [''pamac'', ''remove'', ''--no-confirm'', pkg_id]
      else if pm = ''pacman'' then [''sudo'', ''pacman'', ''-Rns'', ''--noconfirm'', pkg_id]
      else if pm = ''apt'' then [''sudo'', ''apt'', ''remove'', ''-y'', pkg_id]
      else [''sudo'', ''dnf'', ''remove'', ''-y'', pkg_id])"

definition run_once :: "host \<Rightarrow> string list \<Rightarrow> bool \<times> string" where
  "run_once run cmd = (case run cmd of Inl e \<Rightarrow> (False, e) | Inr result \<Rightarrow> outcome result)"

text \<open>\<^verbatim>\<open>_install_package\<close> and \<^verbatim>\<open>_uninstall_package\<close>.\<close>

definition managers_install_package :: "host \<Rightarrow> string \<Rightarrow> string \<Rightarrow> bool \<times> string" where
  "managers_install_package run pkg_id src =
     (if src = ''flatpak'' then run_once run [''flatpak'', ''install'', ''-y'', ''flathub'', pkg_id]
      else if src = ''snap'' then run_once run [''sudo'', ''snap'', ''install'', pkg_id]
      else if src = ''aur''
      then (case try_each run (aur_build_command pkg_id) [''paru'', ''yay'', ''pamac''] of
              None \<Rightarrow> (False, ''No AUR helper available'')
            | Some r \<Rightarrow> r)
      else if src = ''native''
      then (case try_each run (native_install_command pkg_id)
                   [''pamac'', ''pacman'', ''apt'', ''dnf''] of
              None \<Rightarrow> (False, ''No package manager available'')
            | Some r \<Rightarrow> r)
      else (False, ''Unknown source: '' @ src))"

definition managers_uninstall_package :: "host \<Rightarrow> string \<Rightarrow> string \<Rightarrow> bool \<times> string" where
  "managers_uninstall_package run pkg_id src =
     (if src = ''flatpak'' then run_once run [''flatpak'', ''uninstall'', ''-y'', pkg_id]
      else if src = ''snap'' then run_once run [''sudo'', ''snap'', ''remove'', pkg_id]
      else if src = ''aur'' \<or> src = ''native''
      then (case try_each run (native_remove_command pkg_id)
                   [''pamac'', ''pacman'', ''apt'', ''dnf''] of
              None \<Rightarrow> (False, ''No package manager available'')
            | Some r \<Rightarrow> r)
      else (False, ''Unknown source: '' @ src))"

text \<open>
  \<^verbatim>\<open>install_app\<close> and \<^verbatim>\<open>uninstall_app\<close>: the record after the call and the pair given
  to the callback.
\<close>

definition managers_install_app :: "host \<Rightarrow> AppInfo \<Rightarrow> AppInfo \<times> (bool \<times> string)" where
  "managers_install_app run app =
     (case managers_install_package run (app_id app) (source app) of
        (success, msg) \<Rightarrow>
          (if success then app\<lparr>installed := True\<rparr> else app, (success, msg)))"

definition managers_uninstall_app :: "host \<Rightarrow> AppInfo \<Rightarrow> AppInfo \<times> (bool \<times> string)" where
  "managers_uninstall_app run app =
     (case managers_uninstall_package run (app_id app) (source app) of
        (success, msg) \<Rightarrow>
          (if success then app\<lparr>installed := False\<rparr> else app, (success, msg)))"

section \<open>Hosts used in the examples\<close>

definition exited :: "int \<Rightarrow> string \<Rightarrow> string + CompletedProcess" where
  "exited rc out = Inr \<lparr>returncode = rc, stdout = out, stderr = []\<rparr>"

text \<open>
  An Arch host whose only helper is \<^verbatim>\<open>yay\<close>: \<^verbatim>\<open>which\<close> prints the path of \<^verbatim>\<open>yay\<close>
  and of \<^verbatim>\<open>pacman\<close> and exits with \<open>1\<close> for every other name; starting a program
  that is not installed raises.
\<close>

definition yay_host :: host where
  "yay_host cmd =
     (if cmd = [''which'', ''yay''] then exited 0 ''/usr/bin/yay''
      else if cmd = [''which'', ''pacman''] then exited 0 ''/usr/bin/pacman''
      else if hd cmd = ''which'' then exited 1 []
      else Inl ''[Errno 2] No such file or directory'')"

definition yay_popen :: popen where
  "yay_popen cmd =
     (if hd cmd = ''yay''
      then Inr \<lparr>events = [Line ''Cloning'', Line ''Installing''], exit_code = 0\<rparr>
      else Inl ''[Errno 2] No such file or directory'')"

text \<open>
  A Debian derivative: \<^verbatim>\<open>which\<close> finds \<^verbatim>\<open>apt\<close> and exits with \<open>1\<close> for every other
  name.
\<close>

definition apt_host :: host where
  "apt_host cmd =
     (if cmd = [''which'', ''apt''] then exited 0 ''/usr/bin/apt''
      else if hd cmd = ''which'' then exited 1 []
      else Inl ''[Errno 2] No such file or directory'')"

text \<open>A host on which every call raises.\<close>

definition bare_host :: host where
  "bare_host cmd = Inl ''[Errno 2] No such file or directory''"


section \<open>Records and managers used in the examples\<close>

text \<open>\<^verbatim>\<open>AppInfo(id=..., name=..., summary=..., source=..., installed=...)\<close>, the other fields at their defaults.\<close>

definition new_app :: "string \<Rightarrow> string \<Rightarrow> string \<Rightarrow> string \<Rightarrow> bool \<Rightarrow> AppInfo" where
  "new_app pkg_id nm sm src inst =
     \<lparr>app_id = pkg_id, name = nm, summary = sm, description = [], icon_name = None,
      version = None, developer = None, categories = [], source = src, installed = inst,
      app_size = None, rating = None, downloads = None, license = None, homepage = None,
      screenshots = [], featured = False, update_available = False\<rparr>"

definition firefox_flatpak :: AppInfo where
  "firefox_flatpak = new_app ''org.mozilla.firefox'' ''Firefox'' ''Web browser'' ''flatpak'' True"

definition firefox_snap :: AppInfo where
  "firefox_snap = new_app ''firefox'' ''Firefox'' ''Web browser'' ''snap'' False"

definition gimp_flatpak :: AppInfo where
  "gimp_flatpak = new_app ''org.gimp.GIMP'' ''GIMP'' ''Image editor'' ''flatpak'' False"

text \<open>
  A manager that lists \<open>apps\<close> and whose operations exit with \<open>rc\<close> and print \<open>out\<close>.
\<close>

definition listing :: "AppInfo list \<Rightarrow> int \<Rightarrow> string \<Rightarrow> backend" where
  "listing apps rc out =
     \<lparr>get_apps = Inr apps,
      install = (\<lambda>pkg_id. Inr (rc = 0, out)),
      uninstall = (\<lambda>pkg_id. Inr (rc = 0, out)),
      update = (\<lambda>pkg_id. Inr (rc = 0, out))\<rparr>"

definition catalog_of :: "(string \<times> backend) list \<Rightarrow> PackageManager" where
  "catalog_of ms =
     \<lparr>distro_info = unknown_distro, managers = ms, pm_cache = [], cache_valid = False\<rparr>"

text \<open>Flatpak and snap, each offering Firefox.\<close>

definition two_sources :: PackageManager where
  "two_sources =
     catalog_of [(''flatpak'', listing [firefox_flatpak] 0 []),
                 (''snap'', listing [firefox_snap] 0 [])]"

text \<open>
  Flatpak alone, Firefox installed for the user and for the system: \<^verbatim>\<open>flatpak list\<close>
  prints the application on two lines, and \<^verbatim>\<open>get_installed\<close> makes a record of each.
\<close>

definition listed_twice :: PackageManager where
  "listed_twice = catalog_of [(''flatpak'', listing [firefox_flatpak, firefox_flatpak] 0 [])]"

text \<open>Flatpak alone, offering Firefox and GIMP.\<close>

definition flatpak_only :: PackageManager where
  "flatpak_only = catalog_of [(''flatpak'', listing [firefox_flatpak, gimp_flatpak] 0 [])]"

text \<open>A host on which every \<^verbatim>\<open>flatpak\<close> command exits with \<open>rc\<close> and prints \<open>err\<close> on
  the error stream.\<close>

definition flatpak_exits :: "int \<Rightarrow> string \<Rightarrow> host" where
  "flatpak_exits rc err cmd =
     (if hd cmd = ''flatpak'' then Inr \<lparr>returncode = rc, stdout = [], stderr = err\<rparr>
      else Inl ''[Errno 2] No such file or directory'')"

text \<open>Flatpak alone, every operation of which exits with \<open>1\<close>.\<close>

definition flatpak_failing :: PackageManager where
  "flatpak_failing =
     catalog_of [(''flatpak'', listing [firefox_flatpak, gimp_flatpak] 1 ''error: no remote'')]"



text \<open>The entry \<^verbatim>\<open>'google-chrome'\<close> of \<^verbatim>\<open>POPULAR_APPS\<close>.\<close>

definition google_chrome :: "string \<times> metadata" where
  "google_chrome =
     (''google-chrome'',
      \<lparr>meta_name = ''Google Chrome'',
       meta_summary = ''Navegador web r'' @ [CHR 0xE1] @ ''pido e seguro'',
       meta_developer = Some ''Google'',
       meta_categories = Some [''network'', ''web-browser''],
       meta_downloads = None, meta_rating = None\<rparr>)"

section \<open>Notions used in the statements\<close>





text \<open>What the manager of a source adds to the cache: its list, or nothing when it raised.\<close>

definition contribution :: "(string \<times> backend) list \<Rightarrow> string \<Rightarrow> AppInfo list" where
  "contribution ms src =
     (case map_of ms src of
        None \<Rightarrow> []
      | Some b \<Rightarrow> (case get_apps b of Inl e \<Rightarrow> [] | Inr apps \<Rightarrow> apps))"

text \<open>The key \<^verbatim>\<open>f"{pkg_id}:{source}"\<close> of a record, and the state of the merging loop
  of \<^verbatim>\<open>UnifiedAppFetcher.get_all_apps\<close> between two turns: no fingerprint twice, and the
  key of every record in \<^verbatim>\<open>seen_ids\<close>.\<close>

definition cache_key :: "AppInfo \<Rightarrow> string" where
  "cache_key app = app_id app @ '':'' @ source app"

definition merged :: "AppInfo list \<times> string set \<Rightarrow> bool" where
  "merged st = (distinct (map fingerprint (fst st)) \<and> (\<forall>app\<in>set (fst st). cache_key app \<in> snd st))"







section \<open>Properties of the cache\<close>





section \<open>Properties of the reading loop\<close>























section \<open>The outcome of an installation\<close>





























section \<open>The cancellation flag\<close>










section \<open>Probes of the host\<close>

text \<open>
  The probes of \<^verbatim>\<open>_detect_sources\<close>, \<^verbatim>\<open>AURManager._detect_helper\<close> and
  \<^verbatim>\<open>NativeManager._detect_package_manager\<close> read the exit code: a source is available
  only when its check returns exit code \<open>0\<close>, and the name chosen is the first one that
  \<^verbatim>\<open>which\<close> finds. The searches of the installation manager and of
  \<^verbatim>\<open>_command_exists\<close> take the first name for which \<^verbatim>\<open>which\<close> returns at all.
\<close>

lemma version_ok_iff:
  "version_ok run cmd = (\<exists>result. run cmd = Inr result \<and> returncode result = 0)"
  by (cases "run cmd") (simp_all add: version_ok_def)

lemma which_any_first_resolving: "which_any run hs = (first_resolving run hs \<noteq> None)"
  by (induction hs) (simp_all split: sum.splits)

lemma first_resolving_Some:
  "first_resolving run hs = Some h \<Longrightarrow>
   \<exists>pre post result. hs = pre @ h # post \<and> run [''which'', h] = Inr result
      \<and> returncode result = 0
      \<and> (\<forall>x\<in>set pre. \<forall>r. run [''which'', x] = Inr r \<longrightarrow> returncode r \<noteq> 0)"
proof (induction hs)
  case Nil
  then show ?case by simp
next
  case (Cons a hs)
  show ?case
  proof (cases "\<exists>r. run [''which'', a] = Inr r \<and> returncode r = 0")
    case True
    with Cons.prems have "a = h" by auto
    with True have "a # hs = [] @ h # hs \<and> (\<exists>result. run [''which'', h] = Inr result \<and> returncode result = 0)"
      by simp
    then show ?thesis by fastforce
  next
    case False
    with Cons.prems have "first_resolving run hs = Some h"
      by (auto split: sum.splits if_splits)
    from Cons.IH [OF this] obtain pre post result where
      "hs = pre @ h # post" "run [''which'', h] = Inr result" "returncode result = 0"
      "\<forall>x\<in>set pre. \<forall>r. run [''which'', x] = Inr r \<longrightarrow> returncode r \<noteq> 0"
      by blast
    with False have "a # hs = (a # pre) @ h # post \<and> run [''which'', h] = Inr result
      \<and> returncode result = 0
      \<and> (\<forall>x\<in>set (a # pre). \<forall>r. run [''which'', x] = Inr r \<longrightarrow> returncode r \<noteq> 0)"
      by auto
    then show ?thesis by blast
  qed
qed

lemma find_helper_first_returning:
  "run [''which'', h] = Inr result \<Longrightarrow> find_helper run (h # hs) = Some h"
  by simp

lemma detect_from_first_returning:
  "run [''which'', cmd] = Inr result \<Longrightarrow>
   detect_from run ((cmd, b, pm, aur) # rest) =
     Some \<lparr>distro_name = ''Auto-detected'', distro_type = UNKNOWN, distro_version = [],
           codename = [], base = b, package_manager = pm, supports_aur = aur,
           supports_flatpak = True, supports_snap = True\<rparr>"
  by (simp add: command_exists_def)

lemma detect_from_none:
  "\<forall>entry\<in>set table. \<exists>e. run [''which'', fst entry] = Inl e \<Longrightarrow> detect_from run table = None"
  by (induction table) (auto simp: command_exists_def)

lemma detect_distribution_inert:
  assumes "\<forall>entry\<in>set package_managers. \<exists>e. run [''which'', fst entry] = Inl e"
    and "file = Absent \<or> (\<exists>content. file = Readable content
            \<and> distro_type (parse_os_release content) = UNKNOWN)"
  shows "detect_distribution file run = Inr unknown_distro"
proof -
  from assms(1) have "detect_via_package_manager run = None"
    unfolding detect_via_package_manager_def by (rule detect_from_none)
  with assms(2) show ?thesis
    by (auto simp: detect_distribution_def Let_def)
qed

text \<open>
  Claim C5, at a host where \<^verbatim>\<open>which paru\<close> exits with \<open>1\<close> and \<^verbatim>\<open>which yay\<close> with
  \<open>0\<close>. The helper that resolves first is \<^verbatim>\<open>yay\<close>, and \<^verbatim>\<open>_detect_helper\<close> selects
  it; the search in \<^verbatim>\<open>_install_aur\<close> selects \<^verbatim>\<open>paru\<close>, and the installation fails when
  \<^verbatim>\<open>paru\<close> cannot be started.
\<close>

theorem aur_helper_taken_unresolved:
  "find_helper yay_host [''paru'', ''yay'', ''pamac''] = Some ''paru''
   \<and> detect_helper yay_host = Some ''yay''
   \<and> fst (install_aur yay_host yay_popen True ''pkg'' (new_task init_manager))
       = (False, ''[Errno 2] No such file or directory'')"
  by (simp add: yay_host_def yay_popen_def exited_def detect_helper_def HELPERS_def
      install_aur_def aur_command_def run_child_def failed_with_def Let_def)

text \<open>
  Claim C9, at a host where \<^verbatim>\<open>which\<close> finds \<^verbatim>\<open>apt\<close> and no other package manager.
  With the identification file absent, or naming a family that is not known, the
  fallback returns the profile of the first entry of its table, \<^verbatim>\<open>pacman\<close> on an Arch
  base with the AUR, although \<^verbatim>\<open>pacman\<close> does not respond; the probe of
  \<^verbatim>\<open>NativeManager\<close> finds \<^verbatim>\<open>apt\<close> on the same host. When every call raises, the
  profile is the inert one.
\<close>

theorem distro_fallback_takes_absent_tool:
  "detect_distribution Absent apt_host =
     Inr \<lparr>distro_name = ''Auto-detected'', distro_type = UNKNOWN, distro_version = [],
          codename = [], base = ''arch'', package_manager = ''pacman'', supports_aur = True,
          supports_flatpak = True, supports_snap = True\<rparr>
   \<and> detect_distribution (Readable ''NAME=Linux Mint'') apt_host =
     Inr \<lparr>distro_name = ''Auto-detected'', distro_type = UNKNOWN, distro_version = [],
          codename = [], base = ''arch'', package_manager = ''pacman'', supports_aur = True,
          supports_flatpak = True, supports_snap = True\<rparr>
   \<and> detect_package_manager apt_host = ''apt''
   \<and> detect_distribution Absent bare_host = Inr unknown_distro"
  by code_simp

section \<open>Merging the managers' lists\<close>

text \<open>
  Both merging loops append each manager's list to the cache. \<^verbatim>\<open>refresh_cache\<close> takes
  the lists in the order of completion: the records it gathers are the same for every
  order, as a multiset, and in the order of the dictionary its list is the list of
  \<^verbatim>\<open>get_all_apps\<close>.
\<close>

lemma extend_from_contribution: "extend_from ms c src = c @ contribution ms src"
  by (simp add: extend_from_def extend_cache_def contribution_def split: option.splits sum.splits)

lemma foldl_extend_from:
  "foldl (extend_from ms) c completion = c @ concat (map (contribution ms) completion)"
  by (induction completion arbitrary: c) (simp_all add: extend_from_contribution)

lemma mset_concat_map_sum:
  "mset (concat (map f xs)) = sum_mset (image_mset (\<lambda>x. mset (f x)) (mset xs))"
  by (induction xs) simp_all

lemma mset_concat_map:
  "mset xs = mset ys \<Longrightarrow> mset (concat (map f xs)) = mset (concat (map f ys))"
  by (simp add: mset_concat_map_sum)

lemma refresh_same_records:
  "mset completion = mset completion' \<Longrightarrow>
   mset (pm_cache (utils_refresh_cache completion pm)) =
   mset (pm_cache (utils_refresh_cache completion' pm))"
  by (simp add: utils_refresh_cache_def foldl_extend_from) (rule mset_concat_map)

lemma foldl_extend_cache:
  "foldl extend_cache c bs =
     c @ concat (map (\<lambda>b. case get_apps b of Inl e \<Rightarrow> [] | Inr apps \<Rightarrow> apps) bs)"
  by (induction bs arbitrary: c) (simp_all add: extend_cache_def split: sum.splits)

lemma contribution_in_order:
  assumes d: "distinct (map fst ms)"
  shows "map (\<lambda>entry. contribution ms (fst entry)) ms =
         map (\<lambda>entry. case get_apps (snd entry) of Inl e \<Rightarrow> [] | Inr apps \<Rightarrow> apps) ms"
proof (rule map_cong [OF refl])
  fix entry
  assume "entry \<in> set ms"
  with d have "map_of ms (fst entry) = Some (snd entry)"
    by (cases entry) (simp add: map_of_is_SomeI)
  then show "contribution ms (fst entry) =
      (case get_apps (snd entry) of Inl e \<Rightarrow> [] | Inr apps \<Rightarrow> apps)"
    by (simp add: contribution_def)
qed

lemma refresh_in_dictionary_order:
  assumes d: "distinct (map fst (managers pm))" and nv: "\<not> cache_valid pm"
  shows "pm_cache (utils_refresh_cache (map fst (managers pm)) pm) = fst (utils_get_all_apps pm)"
proof -
  have "pm_cache (utils_refresh_cache (map fst (managers pm)) pm) =
      concat (map (\<lambda>entry. contribution (managers pm) (fst entry)) (managers pm))"
    by (simp add: utils_refresh_cache_def foldl_extend_from comp_def)
  also have "\<dots> = concat (map (\<lambda>entry. case get_apps (snd entry) of Inl e \<Rightarrow> []
      | Inr apps \<Rightarrow> apps) (managers pm))"
    by (simp only: contribution_in_order [OF d])
  also have "\<dots> = fst (utils_get_all_apps pm)"
    using nv
    by (simp add: utils_get_all_apps_def Let_def foldl_extend_cache comp_def)
  finally show ?thesis .
qed

text \<open>
  Claim C1, at two managers that answer with one record each. When the future of
  \<^verbatim>\<open>flatpak\<close> completes first the merged list starts with the record of
  \<^verbatim>\<open>flatpak\<close>; when the future of \<^verbatim>\<open>snap\<close> completes first it starts with the record
  of \<^verbatim>\<open>snap\<close>. The outputs of the managers are the same in both runs, the lists
  differ. \<^verbatim>\<open>get_all_apps\<close> on the same managers gives the first list in every run.
\<close>

theorem refresh_follows_completion_order:
  "pm_cache (utils_refresh_cache [''flatpak'', ''snap''] two_sources) = [firefox_flatpak, firefox_snap]
   \<and> pm_cache (utils_refresh_cache [''snap'', ''flatpak''] two_sources) = [firefox_snap, firefox_flatpak]
   \<and> pm_cache (utils_refresh_cache [''flatpak'', ''snap''] two_sources)
       \<noteq> pm_cache (utils_refresh_cache [''snap'', ''flatpak''] two_sources)
   \<and> fst (utils_get_all_apps two_sources) = [firefox_flatpak, firefox_snap]"
proof -
  have ms: "managers two_sources =
      [(''flatpak'', listing [firefox_flatpak] 0 []), (''snap'', listing [firefox_snap] 0 [])]"
    by (simp add: two_sources_def catalog_of_def)
  have c1: "contribution (managers two_sources) ''flatpak'' = [firefox_flatpak]"
    by (simp add: ms contribution_def listing_def)
  have c2: "contribution (managers two_sources) ''snap'' = [firefox_snap]"
    by (simp add: ms contribution_def listing_def)
  have a: "pm_cache (utils_refresh_cache [''flatpak'', ''snap''] two_sources) =
      [firefox_flatpak, firefox_snap]"
    by (simp add: utils_refresh_cache_def extend_from_contribution c1 c2)
  have b: "pm_cache (utils_refresh_cache [''snap'', ''flatpak''] two_sources) =
      [firefox_snap, firefox_flatpak]"
    by (simp add: utils_refresh_cache_def extend_from_contribution c1 c2)
  have ne: "firefox_flatpak \<noteq> firefox_snap"
  proof
    assume "firefox_flatpak = firefox_snap"
    then have "source firefox_flatpak = source firefox_snap" by (rule arg_cong)
    then show False by (simp add: firefox_flatpak_def firefox_snap_def new_app_def)
  qed
  have nv: "\<not> cache_valid two_sources"
    by (simp add: two_sources_def catalog_of_def)
  have g: "fst (utils_get_all_apps two_sources) = [firefox_flatpak, firefox_snap]"
    using nv by (simp add: utils_get_all_apps_def Let_def extend_cache_def ms listing_def)
  from a b ne g show ?thesis by simp
qed

text \<open>
  Claim C2, at a manager whose list holds a record twice. \<^verbatim>\<open>get_all_apps\<close> appends
  the list as it is: the fingerprint appears twice in the merged catalog.
\<close>

theorem merge_keeps_duplicates:
  "fst (utils_get_all_apps listed_twice) = [firefox_flatpak, firefox_flatpak]
   \<and> map fingerprint (fst (utils_get_all_apps listed_twice)) =
       [(''org.mozilla.firefox'', ''flatpak''), (''org.mozilla.firefox'', ''flatpak'')]
   \<and> \<not> distinct (map fingerprint (fst (utils_get_all_apps listed_twice)))"
proof -
  have g: "fst (utils_get_all_apps listed_twice) = [firefox_flatpak, firefox_flatpak]"
    by (simp add: utils_get_all_apps_def Let_def extend_cache_def listed_twice_def
        catalog_of_def listing_def)
  have f: "fingerprint firefox_flatpak = (''org.mozilla.firefox'', ''flatpak'')"
    by (simp add: fingerprint_def firefox_flatpak_def new_app_def)
  show ?thesis by (simp add: g f)
qed

section \<open>The merge over the curated table\<close>

text \<open>
  \<^verbatim>\<open>UnifiedAppFetcher.get_all_apps\<close> skips a record whose key is in \<^verbatim>\<open>seen_ids\<close>: for
  every table, every choice of available sources and every list of installed packages,
  no fingerprint appears twice in its result.
\<close>

lemma cache_key_fingerprint: "fingerprint a = fingerprint b \<Longrightarrow> cache_key a = cache_key b"
  by (simp add: fingerprint_def cache_key_def)

lemma add_source_merged:
  assumes "merged st"
  shows "merged (add_source ids icon installed_cache app_key info st src)"
proof (cases "get_package_id ids app_key src")
  case None
  with assms show ?thesis by (simp add: add_source_def)
next
  case (Some pkg_id)
  show ?thesis
  proof (cases "pkg_id @ '':'' @ src \<in> snd st")
    case True
    with Some assms show ?thesis by (simp add: add_source_def)
  next
    case False
    define app where "app = \<lparr>app_id = pkg_id, name = meta_name info, summary = meta_summary info,
                       description = [], icon_name = icon pkg_id (meta_name info) src,
                       version = None,
                       developer = Some (case meta_developer info of None \<Rightarrow> [] | Some d \<Rightarrow> d),
                       categories = (case meta_categories info of None \<Rightarrow> [] | Some cs \<Rightarrow> cs),
                       source = src,
                       installed = is_installed installed_cache pkg_id src,
                       app_size = None,
                       rating = Some (case meta_rating info of None \<Rightarrow> 0 | Some r \<Rightarrow> r),
                       downloads = Some (case meta_downloads info of None \<Rightarrow> 0 | Some n \<Rightarrow> n),
                       license = None, homepage = None, screenshots = [], featured = False,
                       update_available = False\<rparr>"
    have ck: "cache_key app = pkg_id @ '':'' @ src"
      by (simp add: cache_key_def app_def)
    have step: "add_source ids icon installed_cache app_key info st src =
        (fst st @ [app], insert (cache_key app) (snd st))"
      using Some False by (simp add: add_source_def Let_def app_def ck [unfolded app_def])
    have fresh: "fingerprint app \<notin> set (map fingerprint (fst st))"
    proof
      assume "fingerprint app \<in> set (map fingerprint (fst st))"
      then obtain b where b: "b \<in> set (fst st)" "fingerprint b = fingerprint app" by auto
      then have "cache_key b = cache_key app" by (intro cache_key_fingerprint)
      moreover from assms b have "cache_key b \<in> snd st" by (simp add: merged_def)
      ultimately show False using False ck by simp
    qed
    with assms show ?thesis
      by (auto simp: step merged_def)
  qed
qed

lemma foldl_add_source_merged:
  "merged st \<Longrightarrow> merged (foldl (add_source ids icon installed_cache app_key info) st sources)"
  by (induction sources arbitrary: st) (simp_all add: add_source_merged)

lemma add_key_merged:
  "merged st \<Longrightarrow> merged (add_key popular ids icon installed_cache sources st app_key)"
  by (simp add: add_key_def foldl_add_source_merged split: option.splits)

lemma foldl_add_key_merged:
  "merged st \<Longrightarrow> merged (foldl (add_key popular ids icon installed_cache sources) st ks)"
  by (induction ks arbitrary: st) (simp_all add: add_key_merged)

lemma fetcher_fingerprints_distinct:
  "distinct (map fingerprint (fetcher_get_all_apps popular ids icon installed_cache available))"
proof -
  have "merged ([], {})" by (simp add: merged_def)
  then have "merged (foldl (add_key popular ids icon installed_cache (get_available_sources available))
            ([], {}) (get_popular_app_keys popular))"
    by (rule foldl_add_key_merged)
  then show ?thesis by (simp add: fetcher_get_all_apps_def merged_def)
qed

section \<open>Searching the catalog\<close>








text \<open>
  The claim as stated fails for \<^verbatim>\<open>search_popular_apps\<close>: the query
  \<^verbatim>\<open>google-chrome\<close> returns the entry of that key, though the query occurs neither in
  its name nor in its summary.
\<close>

theorem search_popular_apps_counterexample:
  "search_popular_apps [google_chrome] ''google-chrome'' = [google_chrome]
   \<and> \<not> contains (str_lower (meta_name (snd google_chrome))) (str_lower ''google-chrome'')
   \<and> \<not> contains (str_lower (meta_summary (snd google_chrome))) (str_lower ''google-chrome'')"
  by code_simp

section \<open>Operations and the record\<close>

lemma managers_install_app_cases:
  "managers_install_app run app =
     (if fst (managers_install_package run (app_id app) (source app))
      then (app\<lparr>installed := True\<rparr>, managers_install_package run (app_id app) (source app))
      else (app, managers_install_package run (app_id app) (source app)))"
  by (cases "managers_install_package run (app_id app) (source app)")
     (simp add: managers_install_app_def)

lemma managers_uninstall_app_cases:
  "managers_uninstall_app run app =
     (if fst (managers_uninstall_package run (app_id app) (source app))
      then (app\<lparr>installed := False\<rparr>, managers_uninstall_package run (app_id app) (source app))
      else (app, managers_uninstall_package run (app_id app) (source app)))"
  by (cases "managers_uninstall_package run (app_id app) (source app)")
     (simp add: managers_uninstall_app_def)

lemma utils_install_app_frame:
  "fst (utils_install_app pm app) =
     (if fst (snd (snd (utils_install_app pm app))) then app\<lparr>installed := True\<rparr> else app)"
  by (simp add: utils_install_app_def split: option.splits sum.splits prod.splits)

lemma utils_uninstall_app_frame:
  "fst (utils_uninstall_app pm app) =
     (if fst (snd (snd (utils_uninstall_app pm app))) then app\<lparr>installed := False\<rparr> else app)"
  by (simp add: utils_uninstall_app_def split: option.splits sum.splits prod.splits)

lemma utils_update_app_frame:
  "fst (utils_update_app pm app) =
     (if fst (snd (snd (utils_update_app pm app))) then app\<lparr>update_available := False\<rparr> else app)"
  by (simp add: utils_update_app_def split: option.splits sum.splits prod.splits)

lemma utils_update_app_text:
  "map_of (managers pm) (source app) = Some mgr \<Longrightarrow> update mgr (app_id app) = Inr (ok, txt) \<Longrightarrow>
   snd (snd (utils_update_app pm app)) = (ok, txt)"
  by (simp add: utils_update_app_def)

lemma flatpak_install_text:
  "run [''flatpak'', ''install'', ''-y'', ''flathub'', pkg] = Inr result \<Longrightarrow>
   managers_install_package run pkg ''flatpak'' = (returncode result = 0, stdout result @ stderr result)"
  by (simp add: managers_install_package_def run_once_def outcome_def)

lemma utils_install_app_result:
  "utils_install_app pm app =
     (case map_of (managers pm) (source app) of
        None \<Rightarrow> (app, pm, (False, ''Source '' @ source app @ '' not available''))
      | Some mgr \<Rightarrow>
          (case install mgr (app_id app) of
             Inl err \<Rightarrow> (app, pm, (False, err))
           | Inr r \<Rightarrow>
               (if fst r then app\<lparr>installed := True\<rparr> else app,
                if fst r then pm\<lparr>cache_valid := False\<rparr> else pm, r)))"
  by (simp add: utils_install_app_def split: option.splits sum.splits prod.splits)

lemma utils_uninstall_app_result:
  "utils_uninstall_app pm app =
     (case map_of (managers pm) (source app) of
        None \<Rightarrow> (app, pm, (False, ''Source '' @ source app @ '' not available''))
      | Some mgr \<Rightarrow>
          (case uninstall mgr (app_id app) of
             Inl err \<Rightarrow> (app, pm, (False, err))
           | Inr r \<Rightarrow>
               (if fst r then app\<lparr>installed := False\<rparr> else app,
                if fst r then pm\<lparr>cache_valid := False\<rparr> else pm, r)))"
  by (simp add: utils_uninstall_app_def split: option.splits sum.splits prod.splits)

lemma utils_update_app_result:
  "utils_update_app pm app =
     (case map_of (managers pm) (source app) of
        None \<Rightarrow> (app, pm, (False, ''Source '' @ source app @ '' not available''))
      | Some mgr \<Rightarrow>
          (case update mgr (app_id app) of
             Inl err \<Rightarrow> (app, pm, (False, err))
           | Inr r \<Rightarrow> (if fst r then app\<lparr>update_available := False\<rparr> else app, pm, r)))"
  by (simp add: utils_update_app_def split: option.splits sum.splits prod.splits)

text \<open>
  Claim C6. After \<^verbatim>\<open>install_app\<close> and \<^verbatim>\<open>uninstall_app\<close>, of either package manager,
  the record is the one given with \<^verbatim>\<open>installed\<close> set to true, respectively false,
  when the operation succeeded, and the record given, unchanged in every field, when it
  failed. The callback receives the pair of the operation: for a flatpak, success is
  exit code \<open>0\<close> and the text is what the command printed on both streams, and a
  command that cannot be run gives failure with the text of the exception. After
  \<^verbatim>\<open>update_app\<close> the record has \<^verbatim>\<open>update_available\<close> cleared on success and is
  unchanged on failure, and the callback receives what the manager returned. In the
  package manager over the managers of the sources, each of the three operations gives
  the callback the pair its manager returned and changes the record exactly when that
  pair says success; a manager that raises gives failure with the text of the
  exception, a source without a manager gives failure with a text that names the
  source, and in both cases the record and the package manager are unchanged.
\<close>

theorem operation_updates_record:
  "(fst (snd (managers_install_app run app)) \<longrightarrow>
      fst (managers_install_app run app) = app\<lparr>installed := True\<rparr>)
   \<and> (\<not> fst (snd (managers_install_app run app)) \<longrightarrow> fst (managers_install_app run app) = app)
   \<and> snd (managers_install_app run app) = managers_install_package run (app_id app) (source app)
   \<and> (source app = ''flatpak''
        \<and> run [''flatpak'', ''install'', ''-y'', ''flathub'', app_id app] = Inr result \<longrightarrow>
        snd (managers_install_app run app) = (returncode result = 0, stdout result @ stderr result))
   \<and> (fst (snd (managers_uninstall_app run app)) \<longrightarrow>
      fst (managers_uninstall_app run app) = app\<lparr>installed := False\<rparr>)
   \<and> (\<not> fst (snd (managers_uninstall_app run app)) \<longrightarrow> fst (managers_uninstall_app run app) = app)
   \<and> snd (managers_uninstall_app run app) = managers_uninstall_package run (app_id app) (source app)
   \<and> (fst (snd (snd (utils_install_app pm app))) \<longrightarrow>
      fst (utils_install_app pm app) = app\<lparr>installed := True\<rparr>)
   \<and> (\<not> fst (snd (snd (utils_install_app pm app))) \<longrightarrow> fst (utils_install_app pm app) = app)
   \<and> (fst (snd (snd (utils_uninstall_app pm app))) \<longrightarrow>
      fst (utils_uninstall_app pm app) = app\<lparr>installed := False\<rparr>)
   \<and> (\<not> fst (snd (snd (utils_uninstall_app pm app))) \<longrightarrow> fst (utils_uninstall_app pm app) = app)
   \<and> (fst (snd (snd (utils_update_app pm app))) \<longrightarrow>
      fst (utils_update_app pm app) = app\<lparr>update_available := False\<rparr>)
   \<and> (\<not> fst (snd (snd (utils_update_app pm app))) \<longrightarrow> fst (utils_update_app pm app) = app)
   \<and> (map_of (managers pm) (source app) = Some mgr \<and> update mgr (app_id app) = Inr (ok, txt) \<longrightarrow>
        snd (snd (utils_update_app pm app)) = (ok, txt))
   \<and> (source app = ''flatpak''
        \<and> run [''flatpak'', ''install'', ''-y'', ''flathub'', app_id app] = Inl err \<longrightarrow>
        managers_install_app run app = (app, (False, err)))
   \<and> (source app = ''flatpak''
        \<and> run [''flatpak'', ''uninstall'', ''-y'', app_id app] = Inr result \<longrightarrow>
        snd (managers_uninstall_app run app) = (returncode result = 0, stdout result @ stderr result))
   \<and> (source app = ''flatpak''
        \<and> run [''flatpak'', ''uninstall'', ''-y'', app_id app] = Inl err \<longrightarrow>
        managers_uninstall_app run app = (app, (False, err)))
   \<and> (map_of (managers pm) (source app) = Some mgr \<and> install mgr (app_id app) = Inr (ok, txt) \<longrightarrow>
        utils_install_app pm app =
          (if ok then app\<lparr>installed := True\<rparr> else app,
           if ok then pm\<lparr>cache_valid := False\<rparr> else pm, (ok, txt)))
   \<and> (map_of (managers pm) (source app) = Some mgr \<and> install mgr (app_id app) = Inl err \<longrightarrow>
        utils_install_app pm app = (app, pm, (False, err)))
   \<and> (map_of (managers pm) (source app) = None \<longrightarrow>
        utils_install_app pm app =
          (app, pm, (False, ''Source '' @ source app @ '' not available'')))
   \<and> (map_of (managers pm) (source app) = Some mgr \<and> uninstall mgr (app_id app) = Inr (ok, txt) \<longrightarrow>
        utils_uninstall_app pm app =
          (if ok then app\<lparr>installed := False\<rparr> else app,
           if ok then pm\<lparr>cache_valid := False\<rparr> else pm, (ok, txt)))
   \<and> (map_of (managers pm) (source app) = Some mgr \<and> uninstall mgr (app_id app) = Inl err \<longrightarrow>
        utils_uninstall_app pm app = (app, pm, (False, err)))
   \<and> (map_of (managers pm) (source app) = None \<longrightarrow>
        utils_uninstall_app pm app =
          (app, pm, (False, ''Source '' @ source app @ '' not available'')))
   \<and> (map_of (managers pm) (source app) = Some mgr \<and> update mgr (app_id app) = Inr (ok, txt) \<longrightarrow>
        utils_update_app pm app =
          (if ok then app\<lparr>update_available := False\<rparr> else app, pm, (ok, txt)))
   \<and> (map_of (managers pm) (source app) = Some mgr \<and> update mgr (app_id app) = Inl err \<longrightarrow>
        utils_update_app pm app = (app, pm, (False, err)))
   \<and> (map_of (managers pm) (source app) = None \<longrightarrow>
        utils_update_app pm app =
          (app, pm, (False, ''Source '' @ source app @ '' not available'')))"
proof -
  have i: "snd (managers_install_app run app) = managers_install_package run (app_id app) (source app)"
    by (simp add: managers_install_app_cases)
  have u: "snd (managers_uninstall_app run app) = managers_uninstall_package run (app_id app) (source app)"
    by (simp add: managers_uninstall_app_cases)
  have it: "snd (managers_install_app run app) = (returncode result = 0, stdout result @ stderr result)"
    if "source app = ''flatpak''
        \<and> run [''flatpak'', ''install'', ''-y'', ''flathub'', app_id app] = Inr result"
    using that flatpak_install_text [of run "app_id app" result] by (simp add: i)
  have a: "fst (managers_install_app run app) =
      (if fst (snd (managers_install_app run app)) then app\<lparr>installed := True\<rparr> else app)"
    by (simp add: managers_install_app_cases)
  have b: "fst (managers_uninstall_app run app) =
      (if fst (snd (managers_uninstall_app run app)) then app\<lparr>installed := False\<rparr> else app)"
    by (simp add: managers_uninstall_app_cases)
  have ut: "snd (snd (utils_update_app pm app)) = (ok, txt)"
    if "map_of (managers pm) (source app) = Some mgr \<and> update mgr (app_id app) = Inr (ok, txt)"
    using that by (simp add: utils_update_app_text)
  have ie: "managers_install_app run app = (app, (False, err))"
    if "source app = ''flatpak''
        \<and> run [''flatpak'', ''install'', ''-y'', ''flathub'', app_id app] = Inl err"
    using that
    by (simp add: managers_install_app_def managers_install_package_def run_once_def)
  have ux: "snd (managers_uninstall_app run app) = (returncode result = 0, stdout result @ stderr result)"
    if "source app = ''flatpak''
        \<and> run [''flatpak'', ''uninstall'', ''-y'', app_id app] = Inr result"
    using that
    by (simp add: u managers_uninstall_package_def run_once_def outcome_def)
  have ue: "managers_uninstall_app run app = (app, (False, err))"
    if "source app = ''flatpak'' \<and> run [''flatpak'', ''uninstall'', ''-y'', app_id app] = Inl err"
    using that
    by (simp add: managers_uninstall_app_def managers_uninstall_package_def run_once_def)
  have p1: "utils_install_app pm app =
          (if ok then app\<lparr>installed := True\<rparr> else app,
           if ok then pm\<lparr>cache_valid := False\<rparr> else pm, (ok, txt))"
    if "map_of (managers pm) (source app) = Some mgr \<and> install mgr (app_id app) = Inr (ok, txt)"
    using that by (simp add: utils_install_app_result)
  have p2: "utils_install_app pm app = (app, pm, (False, err))"
    if "map_of (managers pm) (source app) = Some mgr \<and> install mgr (app_id app) = Inl err"
    using that by (simp add: utils_install_app_result)
  have p3: "utils_install_app pm app =
          (app, pm, (False, ''Source '' @ source app @ '' not available''))"
    if "map_of (managers pm) (source app) = None"
    using that by (simp add: utils_install_app_result)
  have q1: "utils_uninstall_app pm app =
          (if ok then app\<lparr>installed := False\<rparr> else app,
           if ok then pm\<lparr>cache_valid := False\<rparr> else pm, (ok, txt))"
    if "map_of (managers pm) (source app) = Some mgr \<and> uninstall mgr (app_id app) = Inr (ok, txt)"
    using that by (simp add: utils_uninstall_app_result)
  have q2: "utils_uninstall_app pm app = (app, pm, (False, err))"
    if "map_of (managers pm) (source app) = Some mgr \<and> uninstall mgr (app_id app) = Inl err"
    using that by (simp add: utils_uninstall_app_result)
  have q3: "utils_uninstall_app pm app =
          (app, pm, (False, ''Source '' @ source app @ '' not available''))"
    if "map_of (managers pm) (source app) = None"
    using that by (simp add: utils_uninstall_app_result)
  have r1: "utils_update_app pm app =
          (if ok then app\<lparr>update_available := False\<rparr> else app, pm, (ok, txt))"
    if "map_of (managers pm) (source app) = Some mgr \<and> update mgr (app_id app) = Inr (ok, txt)"
    using that by (simp add: utils_update_app_result)
  have r2: "utils_update_app pm app = (app, pm, (False, err))"
    if "map_of (managers pm) (source app) = Some mgr \<and> update mgr (app_id app) = Inl err"
    using that by (simp add: utils_update_app_result)
  have r3: "utils_update_app pm app =
          (app, pm, (False, ''Source '' @ source app @ '' not available''))"
    if "map_of (managers pm) (source app) = None"
    using that by (simp add: utils_update_app_result)
  have first: "(fst (snd (managers_install_app run app)) \<longrightarrow>
      fst (managers_install_app run app) = app\<lparr>installed := True\<rparr>)
   \<and> (\<not> fst (snd (managers_install_app run app)) \<longrightarrow> fst (managers_install_app run app) = app)
   \<and> (fst (snd (managers_uninstall_app run app)) \<longrightarrow>
      fst (managers_uninstall_app run app) = app\<lparr>installed := False\<rparr>)
   \<and> (\<not> fst (snd (managers_uninstall_app run app)) \<longrightarrow> fst (managers_uninstall_app run app) = app)
   \<and> (fst (snd (snd (utils_install_app pm app))) \<longrightarrow>
      fst (utils_install_app pm app) = app\<lparr>installed := True\<rparr>)
   \<and> (\<not> fst (snd (snd (utils_install_app pm app))) \<longrightarrow> fst (utils_install_app pm app) = app)
   \<and> (fst (snd (snd (utils_uninstall_app pm app))) \<longrightarrow>
      fst (utils_uninstall_app pm app) = app\<lparr>installed := False\<rparr>)
   \<and> (\<not> fst (snd (snd (utils_uninstall_app pm app))) \<longrightarrow> fst (utils_uninstall_app pm app) = app)
   \<and> (fst (snd (snd (utils_update_app pm app))) \<longrightarrow>
      fst (utils_update_app pm app) = app\<lparr>update_available := False\<rparr>)
   \<and> (\<not> fst (snd (snd (utils_update_app pm app))) \<longrightarrow> fst (utils_update_app pm app) = app)"
    using a b utils_install_app_frame [of pm app] utils_uninstall_app_frame [of pm app]
      utils_update_app_frame [of pm app]
    by presburger
  show ?thesis
    by (intro conjI impI i u it ut ie ux ue p1 p2 p3 q1 q2 q3 r1 r2 r3
        first [THEN conjunct1, rule_format]
        first [THEN conjunct2, THEN conjunct1, rule_format]
        first [THEN conjunct2, THEN conjunct2, THEN conjunct1, rule_format]
        first [THEN conjunct2, THEN conjunct2, THEN conjunct2, THEN conjunct1, rule_format]
        first [THEN conjunct2, THEN conjunct2, THEN conjunct2, THEN conjunct2, THEN conjunct1, rule_format]
        first [THEN conjunct2, THEN conjunct2, THEN conjunct2, THEN conjunct2, THEN conjunct2,
               THEN conjunct1, rule_format]
        first [THEN conjunct2, THEN conjunct2, THEN conjunct2, THEN conjunct2, THEN conjunct2,
               THEN conjunct2, THEN conjunct1, rule_format]
        first [THEN conjunct2, THEN conjunct2, THEN conjunct2, THEN conjunct2, THEN conjunct2,
               THEN conjunct2, THEN conjunct2, THEN conjunct1, rule_format]
        first [THEN conjunct2, THEN conjunct2, THEN conjunct2, THEN conjunct2, THEN conjunct2,
               THEN conjunct2, THEN conjunct2, THEN conjunct2, THEN conjunct1, rule_format]
        first [THEN conjunct2, THEN conjunct2, THEN conjunct2, THEN conjunct2, THEN conjunct2,
               THEN conjunct2, THEN conjunct2, THEN conjunct2, THEN conjunct2, rule_format])
       simp_all
qed

text \<open>
  A flatpak install that exits with \<open>1\<close> leaves GIMP as it was and reports the text of
  the command; one that exits with \<open>0\<close> marks it installed. A successful removal marks
  Firefox not installed, a failed one leaves it. A successful update clears the flag.
  The same through the managers of the sources, and for a record of a source that has
  no manager.
\<close>

theorem operation_updates_record_witness:
  "managers_install_app (flatpak_exits 1 ''error: no remote'') gimp_flatpak =
     (gimp_flatpak, (False, ''error: no remote''))
   \<and> fst (managers_install_app (flatpak_exits 0 []) gimp_flatpak) = gimp_flatpak\<lparr>installed := True\<rparr>
   \<and> fst (managers_uninstall_app (flatpak_exits 0 []) firefox_flatpak) =
       firefox_flatpak\<lparr>installed := False\<rparr>
   \<and> fst (managers_uninstall_app (flatpak_exits 1 ''error'') firefox_flatpak) = firefox_flatpak
   \<and> fst (utils_update_app flatpak_only (firefox_flatpak\<lparr>update_available := True\<rparr>)) =
       firefox_flatpak
   \<and> snd (snd (utils_update_app flatpak_only (firefox_flatpak\<lparr>update_available := True\<rparr>))) =
       (True, [])
   \<and> utils_install_app flatpak_only gimp_flatpak =
       (gimp_flatpak\<lparr>installed := True\<rparr>, flatpak_only\<lparr>cache_valid := False\<rparr>, (True, []))
   \<and> utils_install_app flatpak_failing gimp_flatpak =
       (gimp_flatpak, flatpak_failing, (False, ''error: no remote''))
   \<and> utils_uninstall_app flatpak_only firefox_flatpak =
       (firefox_flatpak\<lparr>installed := False\<rparr>, flatpak_only\<lparr>cache_valid := False\<rparr>, (True, []))
   \<and> utils_uninstall_app flatpak_failing firefox_flatpak =
       (firefox_flatpak, flatpak_failing, (False, ''error: no remote''))
   \<and> utils_install_app flatpak_only firefox_snap =
       (firefox_snap, flatpak_only, (False, ''Source snap not available''))"
proof -
  have src: "source gimp_flatpak = ''flatpak''" "app_id gimp_flatpak = ''org.gimp.GIMP''"
    "source firefox_flatpak = ''flatpak''" "app_id firefox_flatpak = ''org.mozilla.firefox''"
    "source firefox_snap = ''snap''"
    by (simp_all add: gimp_flatpak_def firefox_flatpak_def firefox_snap_def new_app_def)
  have fail: "managers_install_package (flatpak_exits 1 ''error: no remote'') ''org.gimp.GIMP'' ''flatpak''
      = (False, ''error: no remote'')"
    by (simp add: managers_install_package_def run_once_def outcome_def flatpak_exits_def)
  have ok: "managers_install_package (flatpak_exits 0 []) ''org.gimp.GIMP'' ''flatpak'' = (True, [])"
    by (simp add: managers_install_package_def run_once_def outcome_def flatpak_exits_def)
  have rm: "managers_uninstall_package (flatpak_exits 0 []) ''org.mozilla.firefox'' ''flatpak''
      = (True, [])"
    by (simp add: managers_uninstall_package_def run_once_def outcome_def flatpak_exits_def)
  have rmf: "managers_uninstall_package (flatpak_exits 1 ''error'') ''org.mozilla.firefox'' ''flatpak''
      = (False, ''error'')"
    by (simp add: managers_uninstall_package_def run_once_def outcome_def flatpak_exits_def)
  have 1: "managers_install_app (flatpak_exits 1 ''error: no remote'') gimp_flatpak =
     (gimp_flatpak, (False, ''error: no remote''))"
    using operation_updates_record
      [where run = "flatpak_exits 1 ''error: no remote''" and app = gimp_flatpak]
    by (simp add: src fail prod_eq_iff)
  have 2: "fst (managers_install_app (flatpak_exits 0 []) gimp_flatpak) =
      gimp_flatpak\<lparr>installed := True\<rparr>"
    using operation_updates_record [where run = "flatpak_exits 0 []" and app = gimp_flatpak]
    by (simp add: src ok)
  have 3: "fst (managers_uninstall_app (flatpak_exits 0 []) firefox_flatpak) =
       firefox_flatpak\<lparr>installed := False\<rparr>"
    using operation_updates_record [where run = "flatpak_exits 0 []" and app = firefox_flatpak]
    by (simp add: src rm)
  have 4: "fst (managers_uninstall_app (flatpak_exits 1 ''error'') firefox_flatpak) = firefox_flatpak"
    using operation_updates_record [where run = "flatpak_exits 1 ''error''" and app = firefox_flatpak]
    by (simp add: src rmf)
  have up: "snd (snd (utils_update_app flatpak_only (firefox_flatpak\<lparr>update_available := True\<rparr>))) =
       (True, [])"
    by (simp add: utils_update_app_def flatpak_only_def catalog_of_def listing_def src)
  have restored: "firefox_flatpak\<lparr>update_available := True, update_available := False\<rparr> =
      firefox_flatpak"
    by (simp add: firefox_flatpak_def new_app_def)
  have "fst (snd (snd (utils_update_app flatpak_only (firefox_flatpak\<lparr>update_available := True\<rparr>))))
      \<longrightarrow> fst (utils_update_app flatpak_only (firefox_flatpak\<lparr>update_available := True\<rparr>)) =
        firefox_flatpak\<lparr>update_available := True, update_available := False\<rparr>"
    using operation_updates_record
      [THEN conjunct2, THEN conjunct2, THEN conjunct2, THEN conjunct2, THEN conjunct2,
       THEN conjunct2, THEN conjunct2, THEN conjunct2, THEN conjunct2, THEN conjunct2,
       THEN conjunct2, THEN conjunct1,
       of flatpak_only "firefox_flatpak\<lparr>update_available := True\<rparr>"]
    by blast
  then have 5: "fst (utils_update_app flatpak_only (firefox_flatpak\<lparr>update_available := True\<rparr>)) =
       firefox_flatpak"
    by (simp only: up restored fst_conv simp_thms)
  have good: "map_of (managers flatpak_only) ''flatpak'' = Some (listing [firefox_flatpak, gimp_flatpak] 0 [])"
    "map_of (managers flatpak_only) ''snap'' = None"
    by (simp_all add: flatpak_only_def catalog_of_def)
  have bad: "map_of (managers flatpak_failing) ''flatpak'' =
      Some (listing [firefox_flatpak, gimp_flatpak] 1 ''error: no remote'')"
    by (simp add: flatpak_failing_def catalog_of_def)
  have ops: "install (listing apps rc out) pkg = Inr (rc = 0, out)"
    "uninstall (listing apps rc out) pkg = Inr (rc = 0, out)" for apps rc out pkg
    by (simp_all add: listing_def)
  note exact_install = operation_updates_record
    [THEN conjunct2, THEN conjunct2, THEN conjunct2, THEN conjunct2, THEN conjunct2,
     THEN conjunct2, THEN conjunct2, THEN conjunct2, THEN conjunct2, THEN conjunct2,
     THEN conjunct2, THEN conjunct2, THEN conjunct2, THEN conjunct2, THEN conjunct2,
     THEN conjunct2, THEN conjunct2, THEN conjunct1, rule_format]
  note missing_install = operation_updates_record
    [THEN conjunct2, THEN conjunct2, THEN conjunct2, THEN conjunct2, THEN conjunct2,
     THEN conjunct2, THEN conjunct2, THEN conjunct2, THEN conjunct2, THEN conjunct2,
     THEN conjunct2, THEN conjunct2, THEN conjunct2, THEN conjunct2, THEN conjunct2,
     THEN conjunct2, THEN conjunct2, THEN conjunct2, THEN conjunct2, THEN conjunct1, rule_format]
  note exact_uninstall = operation_updates_record
    [THEN conjunct2, THEN conjunct2, THEN conjunct2, THEN conjunct2, THEN conjunct2,
     THEN conjunct2, THEN conjunct2, THEN conjunct2, THEN conjunct2, THEN conjunct2,
     THEN conjunct2, THEN conjunct2, THEN conjunct2, THEN conjunct2, THEN conjunct2,
     THEN conjunct2, THEN conjunct2, THEN conjunct2, THEN conjunct2, THEN conjunct2,
     THEN conjunct1, rule_format]
  have 6: "utils_install_app flatpak_only gimp_flatpak =
       (gimp_flatpak\<lparr>installed := True\<rparr>, flatpak_only\<lparr>cache_valid := False\<rparr>, (True, []))"
    using exact_install [of flatpak_only gimp_flatpak "listing [firefox_flatpak, gimp_flatpak] 0 []"
        True "[]"]
    by (simp add: src good ops)
  have 7: "utils_install_app flatpak_failing gimp_flatpak =
       (gimp_flatpak, flatpak_failing, (False, ''error: no remote''))"
    using exact_install [of flatpak_failing gimp_flatpak
        "listing [firefox_flatpak, gimp_flatpak] 1 ''error: no remote''" False "''error: no remote''"]
    by (simp add: src bad ops)
  have 8: "utils_uninstall_app flatpak_only firefox_flatpak =
       (firefox_flatpak\<lparr>installed := False\<rparr>, flatpak_only\<lparr>cache_valid := False\<rparr>, (True, []))"
    using exact_uninstall [of flatpak_only firefox_flatpak
        "listing [firefox_flatpak, gimp_flatpak] 0 []" True "[]"]
    by (simp add: src good ops)
  have 9: "utils_uninstall_app flatpak_failing firefox_flatpak =
       (firefox_flatpak, flatpak_failing, (False, ''error: no remote''))"
    using exact_uninstall [of flatpak_failing firefox_flatpak
        "listing [firefox_flatpak, gimp_flatpak] 1 ''error: no remote''" False "''error: no remote''"]
    by (simp add: src bad ops)
  have 10: "utils_install_app flatpak_only firefox_snap =
       (firefox_snap, flatpak_only, (False, ''Source snap not available''))"
    using missing_install [of flatpak_only firefox_snap]
    by (simp add: src good)
  from 1 2 3 4 5 up 6 7 8 9 10 show ?thesis by simp
qed

end
